theory Spec2Isabelle
  imports Main "HOL-Library.Sublist"
begin

section \<open>Python strings\<close>

text \<open>
  A Python \<open>str\<close> is a sequence of Unicode code points, so it is modelled as a list of
  natural numbers (one per code point): \<open>len\<close> is \<open>length\<close>, and a Bangla digit is one
  element, as in Python. ASCII literals of the source are written with \<open>ascii\<close>.
\<close>

type_synonym pystr = "nat list"

definition ascii :: "string \<Rightarrow> pystr" where
  "ascii s = map of_char s"

text \<open>\<open>str.isspace\<close> of one code point, which is also what \<open>\s\<close> matches in a \<open>str\<close>
  pattern: the Unicode white space.\<close>

definition isspace :: "nat \<Rightarrow> bool" where
  "isspace c \<longleftrightarrow>
     (0x09 \<le> c \<and> c \<le> 0x0D) \<or> (0x1C \<le> c \<and> c \<le> 0x20) \<or> c = 0x85 \<or> c = 0xA0 \<or>
     c = 0x1680 \<or> (0x2000 \<le> c \<and> c \<le> 0x200A) \<or> c = 0x2028 \<or> c = 0x2029 \<or>
     c = 0x202F \<or> c = 0x205F \<or> c = 0x3000"

definition strip :: "pystr \<Rightarrow> pystr" where
  "strip s = rev (dropWhile isspace (rev (dropWhile isspace s)))"

definition startswith :: "pystr \<Rightarrow> pystr \<Rightarrow> bool" where
  "startswith s p \<longleftrightarrow> take (length p) s = p"

text \<open>\<open>contains s p\<close> is Python's \<open>p in s\<close>: \<open>p\<close> occurs somewhere in \<open>s\<close>.\<close>

fun contains :: "pystr \<Rightarrow> pystr \<Rightarrow> bool" where
  "contains [] p \<longleftrightarrow> p = []"
| "contains (c # s) p \<longleftrightarrow> startswith (c # s) p \<or> contains s p"

text \<open>\<open>join sep xs\<close> is \<open>sep.join(xs)\<close>.\<close>

fun join :: "pystr \<Rightarrow> pystr list \<Rightarrow> pystr" where
  "join sep [] = []"
| "join sep [x] = x"
| "join sep (x # y # ys) = x @ sep @ join sep (y # ys)"

text \<open>\<open>replace old new s\<close> is \<open>s.replace(old, new)\<close>: every occurrence of \<open>old\<close>, found
  from the left and not overlapping the one before, becomes \<open>new\<close>.\<close>

function replace :: "pystr \<Rightarrow> pystr \<Rightarrow> pystr \<Rightarrow> pystr" where
  "replace [] new s = new @ concat (map (\<lambda>c. c # new) s)"
| "replace (a # old) new [] = []"
| "replace (a # old) new (c # s) =
     (if startswith (c # s) (a # old)
      then new @ replace (a # old) new (drop (length old) s)
      else c # replace (a # old) new s)"
  by pat_completeness auto
termination
  by (relation "measure (\<lambda>(old, new, s). length s)") auto

text \<open>\<open>str(n)\<close> of a non-negative integer, and the zero padding of \<open>strftime\<close>.\<close>

function str_of_nat :: "nat \<Rightarrow> pystr" where
  "str_of_nat n = (if n < 10 then [0x30 + n] else str_of_nat (n div 10) @ [0x30 + n mod 10])"
  by pat_completeness auto
termination
  by (relation "measure id") auto

definition zero_padded :: "nat \<Rightarrow> nat \<Rightarrow> pystr" where
  "zero_padded w n = replicate (w - length (str_of_nat n)) 0x30 @ str_of_nat n"

text \<open>\<open>str.translate(table)\<close> for a table made by \<open>str.maketrans(x, y)\<close>: a code point
  that is a key of the table is replaced by its value, any other is kept.\<close>

definition maketrans :: "pystr \<Rightarrow> pystr \<Rightarrow> (nat \<rightharpoonup> nat)" where
  "maketrans x y = map_of (zip x y)"

definition translate :: "(nat \<rightharpoonup> nat) \<Rightarrow> pystr \<Rightarrow> pystr" where
  "translate table s = map (\<lambda>c. case table c of None \<Rightarrow> c | Some d \<Rightarrow> d) s"

text \<open>Exceptions that the modelled code can raise.\<close>

datatype error = AttributeError | ValueError | KeyError | NameError | OverflowError

text \<open>
  \<open>int(s)\<close> on a \<open>str\<close>, base 10, as CPython does it: white space around the number is
  skipped, one sign is allowed, then come decimal digits with single underscores allowed
  between two digits. A digit is any code point with the Unicode property
  \<open>Decimal\<close> (the table below lists the zero of each of the 66 digit blocks of
  Unicode 14); anything else raises \<open>ValueError\<close>, and so does a number of more than
  4300 digits (the default \<open>sys.int_max_str_digits\<close>).
\<close>

definition decimal_zeros :: "nat list" where
  "decimal_zeros =
    [0x30, 0x660, 0x6F0, 0x7C0, 0x966, 0x9E6, 0xA66, 0xAE6, 0xB66, 0xBE6, 0xC66, 0xCE6,
     0xD66, 0xDE6, 0xE50, 0xED0, 0xF20, 0x1040, 0x1090, 0x17E0, 0x1810, 0x1946, 0x19D0,
     0x1A80, 0x1A90, 0x1B50, 0x1BB0, 0x1C40, 0x1C50, 0xA620, 0xA8D0, 0xA900, 0xA9D0,
     0xA9F0, 0xAA50, 0xABF0, 0xFF10, 0x104A0, 0x10D30, 0x11066, 0x110F0, 0x11136,
     0x111D0, 0x112F0, 0x11450, 0x114D0, 0x11650, 0x116C0, 0x11730, 0x118E0, 0x11950,
     0x11C50, 0x11D50, 0x11DA0, 0x16A60, 0x16AC0, 0x16B50, 0x1D7CE, 0x1D7D8, 0x1D7E2,
     0x1D7EC, 0x1D7F6, 0x1E140, 0x1E2F0, 0x1E950, 0x1FBF0]"

definition decimal :: "nat \<Rightarrow> nat option" where
  "decimal c = (case List.find (\<lambda>z. z \<le> c \<and> c < z + 10) decimal_zeros of
                  None \<Rightarrow> None | Some z \<Rightarrow> Some (c - z))"

text \<open>The digits of the number's body; the flag says that the code point before was a
  digit, which is where an underscore or the end may come.\<close>

fun body_digits :: "bool \<Rightarrow> pystr \<Rightarrow> nat list option" where
  "body_digits prev [] = (if prev then Some [] else None)"
| "body_digits prev (c # cs) =
     (if c = 0x5F then (if prev then body_digits False cs else None)
      else case decimal c of
             None \<Rightarrow> None
           | Some d \<Rightarrow> map_option ((#) d) (body_digits True cs))"

definition digits_value :: "nat list \<Rightarrow> nat" where
  "digits_value ds = fold (\<lambda>d acc. 10 * acc + d) ds 0"

definition py_int :: "pystr \<Rightarrow> error + int" where
  "py_int s =
     (let t = strip s;
          neg = (t \<noteq> [] \<and> hd t = 0x2D);
          body = (if t \<noteq> [] \<and> (hd t = 0x2D \<or> hd t = 0x2B) then tl t else t)
      in case body_digits False body of
           None \<Rightarrow> Inl ValueError
         | Some ds \<Rightarrow>
             if length ds > 4300 then Inl ValueError
             else Inr (if neg then - int (digits_value ds) else int (digits_value ds)))"

section \<open>The parsed document (BeautifulSoup)\<close>

text \<open>
  \<open>BeautifulSoup(html, "html.parser")\<close> is a tree of tags and text strings. A tag has its
  name, the value of its \<open>class\<close> attribute as the parser stores it (the list of its
  class names; \<open>None\<close> without the attribute), its other attributes (each a string) and
  its children. Only the strings that \<open>get_text\<close> returns are kept in the tree:
  comments and the contents of script, style and template elements are of string classes
  that \<open>get_text\<close> skips and that no search of the program can return.
  The document itself is the list of its top-level nodes.
\<close>

datatype tag =
  Tag (name: pystr) (classes: "pystr list option") (attrs: "(pystr \<times> pystr) list")
      (contents: "node list")
and node = NavigableString pystr | Element tag

type_synonym soup = "node list"

text \<open>Every tag below the given nodes, in document order, each with the siblings that
  follow it.\<close>

fun located :: "node list \<Rightarrow> (tag \<times> node list) list" where
  "located [] = []"
| "located (NavigableString s # rest) = located rest"
| "located (Element (Tag n c a cs) # rest) = (Tag n c a cs, rest) # located cs @ located rest"

text \<open>Every text string below the given nodes, in document order.\<close>

fun strings :: "node list \<Rightarrow> pystr list" where
  "strings [] = []"
| "strings (NavigableString s # rest) = s # strings rest"
| "strings (Element (Tag n c a cs) # rest) = strings cs @ strings rest"

text \<open>\<open>find_all\<close> and \<open>find\<close> with the search criteria as a predicate on tags; called on a
  tag they search its \<open>contents\<close>.\<close>

definition find_all :: "(tag \<Rightarrow> bool) \<Rightarrow> node list \<Rightarrow> tag list" where
  "find_all P ns = filter P (map fst (located ns))"

definition find_tag :: "(tag \<Rightarrow> bool) \<Rightarrow> node list \<Rightarrow> tag option" where
  "find_tag P ns = List.find P (map fst (located ns))"

text \<open>\<open>find_next_sibling(n)\<close>, given the siblings that follow the tag.\<close>

fun find_next_sibling :: "pystr \<Rightarrow> node list \<Rightarrow> tag option" where
  "find_next_sibling n [] = None"
| "find_next_sibling n (NavigableString s # rest) = find_next_sibling n rest"
| "find_next_sibling n (Element t # rest) =
     (if name t = n then Some t else find_next_sibling n rest)"

text \<open>\<open>get_text(sep, strip=True)\<close>: the strings below the tag, each stripped, the empty
  ones dropped, joined by the separator.\<close>

definition get_text :: "pystr \<Rightarrow> tag \<Rightarrow> pystr" where
  "get_text sep t = join sep (filter (\<lambda>s. s \<noteq> []) (map strip (strings (contents t))))"

text \<open>The two shapes of regular expression that the program compiles for a class search:
  \<open>^p\<close> and \<open>p\<close> for a literal \<open>p\<close>, with \<open>search\<close>. A compiled expression given as
  \<open>class_\<close> is tried on each class name and then on the names joined by a space.\<close>

datatype regex = Anchored pystr | Anywhere pystr

fun re_search :: "regex \<Rightarrow> pystr \<Rightarrow> bool" where
  "re_search (Anchored p) s \<longleftrightarrow> startswith s p"
| "re_search (Anywhere p) s \<longleftrightarrow> contains s p"

definition class_matches :: "regex \<Rightarrow> tag \<Rightarrow> bool" where
  "class_matches r t =
     (case classes t of
        None \<Rightarrow> False
      | Some cs \<Rightarrow> list_ex (re_search r) cs \<or> re_search r (join (ascii '' '') cs))"

definition has_attr :: "pystr \<Rightarrow> tag \<Rightarrow> bool" where
  "has_attr k t \<longleftrightarrow> map_of (attrs t) k \<noteq> None"

text \<open>\<open>tag[k]\<close> and \<open>d[k]\<close>.\<close>

definition getitem :: "('k \<rightharpoonup> 'v) \<Rightarrow> 'k \<Rightarrow> error + 'v" where
  "getitem d k = (case d k of None \<Rightarrow> Inl KeyError | Some v \<Rightarrow> Inr v)"

section \<open>Configuration (config.py)\<close>

definition BASE_URL :: pystr where
  "BASE_URL = ascii ''https://bikroy.com''"

definition BASE_PAGE_URL :: pystr where
  "BASE_PAGE_URL =
     BASE_URL @ ascii ''/bn/ads/bangladesh/mobiles?sort=date&order=desc&buy_now=0&urgent=0&page=''"

definition MAX_PAGES :: nat where
  "MAX_PAGES = 300"

definition MAX_RETRIES :: nat where
  "MAX_RETRIES = 3"

text \<open>The ten Bangla digits U+09E6 .. U+09EF and the ten ASCII digits U+0030 .. U+0039,
  the two arguments of \<open>str.maketrans\<close> in \<open>BANGLA_TO_ENGLISH\<close>.\<close>

definition bangla_digits :: pystr where
  "bangla_digits = [0x9E6, 0x9E7, 0x9E8, 0x9E9, 0x9EA, 0x9EB, 0x9EC, 0x9ED, 0x9EE, 0x9EF]"

definition ascii_digits :: pystr where
  "ascii_digits = ascii ''0123456789''"

definition BANGLA_TO_ENGLISH :: "nat \<rightharpoonup> nat" where
  "BANGLA_TO_ENGLISH = maketrans bangla_digits ascii_digits"

text \<open>\<open>MONTH_MAP\<close> and \<open>FIELD_MAP\<close>, as lists of their items in the order of the source
  (the order in which a loop over \<open>items()\<close> visits them). The Bangla keys are written by
  their code points.\<close>

definition MONTH_MAP :: "(pystr \<times> pystr) list" where
  "MONTH_MAP =
    [([0x99C, 0x9BE, 0x9A8, 0x9C1], ascii ''Jan''),
     ([0x9AB, 0x9C7, 0x9AC], ascii ''Feb''),
     ([0x9AE, 0x9BE, 0x9B0, 0x9CD, 0x99A], ascii ''Mar''),
     ([0x98F, 0x9AA, 0x9CD, 0x9B0, 0x9BF], ascii ''Apr''),
     ([0x9AE, 0x9C7], ascii ''May''),
     ([0x99C, 0x9C1, 0x9A8], ascii ''Jun''),
     ([0x99C, 0x9C1, 0x9B2, 0x9BE], ascii ''Jul''),
     ([0x986, 0x997], ascii ''Aug''),
     ([0x9B8, 0x9C7, 0x9AA, 0x9CD, 0x99F, 0x20], ascii ''Sep''),
     ([0x985, 0x995, 0x9CD, 0x99F, 0x9CB], ascii ''Oct''),
     ([0x9A8, 0x9AD, 0x9C7], ascii ''Nov''),
     ([0x9A1, 0x9BF, 0x9B8, 0x9C7], ascii ''Dec'')]"

definition FIELD_MAP :: "(pystr \<times> pystr) list" where
  "FIELD_MAP =
    [([0x995, 0x9A8, 0x9CD, 0x9A1, 0x9BF, 0x9B6, 0x9A8, 0x3A], ascii ''Condition''),
     ([0x9AE, 0x9A1, 0x9C7, 0x9B2, 0x3A], ascii ''Model''),
     ([0x9AC, 0x9CD, 0x9B0, 0x9CD, 0x9AF, 0x9BE, 0x9A8, 0x9CD, 0x9A1, 0x3A], ascii ''Brand'')]"

section \<open>The environment of a run\<close>

text \<open>
  What the program reads from outside is a parameter of the model.
  \<^item> \<open>net url k\<close> is the outcome of the \<open>k\<close>-th GET request (from 0) that the run sends
    to \<open>url\<close>: \<open>asyncio.TimeoutError\<close>, another exception, or a response with its status
    and, parsed, its body.
  \<^item> \<open>strptime s\<close> is \<open>datetime.strptime(s, "%d %b %I:%M %p %Y")\<close>, \<open>None\<close> when it
    raises.
  \<^item> \<open>now\<close> is \<open>datetime.now()\<close>.
  \<^item> \<open>report_writable\<close> says whether the report of failed URLs can be written.
\<close>

datatype outcome = Timeout | Failure | Response nat soup

record datetime =
  year :: nat
  month :: nat
  day :: nat
  hour :: nat
  minute :: nat

record env =
  net :: "pystr \<Rightarrow> nat \<Rightarrow> outcome"
  strptime :: "pystr \<Rightarrow> datetime option"
  now :: datetime
  report_writable :: bool

text \<open>\<open>strftime("%Y-%m-%d")\<close> and \<open>strftime("%H:%M")\<close>.\<close>

definition strftime_date :: "datetime \<Rightarrow> pystr" where
  "strftime_date d =
     zero_padded 4 (year d) @ ascii ''-'' @ zero_padded 2 (month d) @ ascii ''-'' @ zero_padded 2 (day d)"

definition strftime_time :: "datetime \<Rightarrow> pystr" where
  "strftime_time d = zero_padded 2 (hour d) @ ascii '':'' @ zero_padded 2 (minute d)"

section \<open>Field extraction (scraper.py)\<close>

subsection \<open>\<open>extract_fields\<close>\<close>

text \<open>The result is a dictionary whose values may be \<open>None\<close>: a map to optional strings.\<close>

fun extract_fields_loop ::
  "(tag \<times> node list) list \<Rightarrow> (pystr \<rightharpoonup> pystr option) \<Rightarrow> (pystr \<rightharpoonup> pystr option)" where
  "extract_fields_loop [] result = result"
| "extract_fields_loop ((div_tag, siblings) # rest) result =
     (let text = get_text [] div_tag
      in case map_of FIELD_MAP text of
           None \<Rightarrow> extract_fields_loop rest result
         | Some key \<Rightarrow>
             (case find_next_sibling (ascii ''div'') siblings of
                None \<Rightarrow> extract_fields_loop rest result
              | Some next_div \<Rightarrow>
                  extract_fields_loop rest (result(key \<mapsto> Some (get_text [] next_div)))))"

definition extract_fields :: "soup \<Rightarrow> (pystr \<rightharpoonup> pystr option)" where
  "extract_fields soup =
     (let result = map_of (map (\<lambda>v. (v, None)) (map snd FIELD_MAP));
          all_divs = filter (\<lambda>(t, siblings). name t = ascii ''div'') (located soup)
      in extract_fields_loop all_divs result)"

subsection \<open>\<open>parse_date_time\<close>\<close>

text \<open>
  \<open>re.search\<close> of the marker phrase followed by \<open>\s*(.*?)\s*,\<close>, returning group 1.
  \<open>lazy_group\<close> is the lazy \<open>(.*?)\s*,\<close>: at each position it first tries to end the group
  (white space and a comma follow) and otherwise takes one more code point, which must
  not be a newline. \<open>match_tail\<close> is the greedy \<open>\s*\<close> before it, which first takes all
  the white space and gives it back one code point at a time while the rest fails.
  \<open>search_posted\<close> tries the start positions from the left.
\<close>

definition POSTED_MARKER :: pystr where
  "POSTED_MARKER =
    [0x9AA, 0x9CB, 0x9B8, 0x9CD, 0x99F, 0x20, 0x995, 0x9B0, 0x9BE, 0x20,
     0x9B9, 0x9AF, 0x9BC, 0x9C7, 0x99B, 0x9C7]"

definition spaces_then_comma :: "pystr \<Rightarrow> bool" where
  "spaces_then_comma s = (case dropWhile isspace s of [] \<Rightarrow> False | c # cs \<Rightarrow> c = 0x2C)"

fun lazy_group :: "pystr \<Rightarrow> pystr option" where
  "lazy_group [] = None"
| "lazy_group (c # cs) =
     (if spaces_then_comma (c # cs) then Some []
      else if c = 0x0A then None
      else map_option ((#) c) (lazy_group cs))"

fun first_some :: "'a option list \<Rightarrow> 'a option" where
  "first_some [] = None"
| "first_some (None # xs) = first_some xs"
| "first_some (Some x # xs) = Some x"

definition match_tail :: "pystr \<Rightarrow> pystr option" where
  "match_tail s =
     (let n = length (takeWhile isspace s)
      in first_some (map (\<lambda>k. lazy_group (drop k s)) (rev [0..<Suc n])))"

fun search_posted :: "pystr \<Rightarrow> pystr option" where
  "search_posted [] = None"
| "search_posted (c # cs) =
     (if startswith (c # cs) POSTED_MARKER
      then (case match_tail (drop (length POSTED_MARKER) (c # cs)) of
              Some g \<Rightarrow> Some g
            | None \<Rightarrow> search_posted cs)
      else search_posted cs)"

definition parse_date_time :: "env \<Rightarrow> soup \<Rightarrow> pystr \<Rightarrow> pystr option \<times> pystr option" where
  "parse_date_time e soup url =
     (case find_tag (\<lambda>t. name t = ascii ''div'') soup of
        None \<Rightarrow> (None, None)
      | Some div_tag \<Rightarrow>
          (let text = get_text (ascii '' '') div_tag;
               match = search_posted text
           in if contains url (ascii ''post-ad?'') then (None, None)
              else case match of
                     None \<Rightarrow> (None, None)
                   | Some group1 \<Rightarrow>
                       (let bangla_dt = strip group1;
                            eng_dt = translate BANGLA_TO_ENGLISH bangla_dt;
                            eng_dt = fold (\<lambda>(bn, en) s. replace bn en s) MONTH_MAP eng_dt;
                            eng_dt = replace [0x9AA, 0x9BF, 0x98F, 0x9AE] (ascii ''PM'')
                                       (replace [0x98F, 0x98F, 0x9AE] (ascii ''AM'') eng_dt);
                            current_year = year (now e);
                            eng_dt_with_year = eng_dt @ ascii '' '' @ str_of_nat current_year
                        in case strptime e eng_dt_with_year of
                             None \<Rightarrow> (None, None)
                           | Some date_obj \<Rightarrow>
                               (Some (strftime_time date_obj), Some (strftime_date date_obj)))))"

subsection \<open>\<open>extract_images\<close>\<close>

definition AVATAR_PATTERN :: pystr where
  "AVATAR_PATTERN = ascii ''https://i.bikroy-st.com/u/''"

fun extract_images_loop :: "tag list \<Rightarrow> pystr list \<Rightarrow> error + pystr list" where
  "extract_images_loop [] img_urls = Inr img_urls"
| "extract_images_loop (img # rest) img_urls =
     (case getitem (map_of (attrs img)) (ascii ''src'') of
        Inl e \<Rightarrow> Inl e
      | Inr src \<Rightarrow>
          extract_images_loop rest
            (if \<not> contains src AVATAR_PATTERN then img_urls @ [src] else img_urls))"

definition extract_images :: "soup \<Rightarrow> error + pystr list" where
  "extract_images soup =
     (let all_imgs = find_all (\<lambda>t. name t = ascii ''img'' \<and> has_attr (ascii ''src'') t) soup
      in extract_images_loop all_imgs [])"

subsection \<open>\<open>json.dumps\<close> of a list of strings\<close>

text \<open>With the default \<open>ensure_ascii\<close>: a string goes between double quotes, with the
  backslash, the double quote and the control characters escaped and every code point
  outside U+0020 .. U+007E written as \<open>\uXXXX\<close> (two of them, a surrogate pair, above
  U+FFFF); the items are separated by a comma and a space.\<close>

definition hex_digit :: "nat \<Rightarrow> nat" where
  "hex_digit d = (if d < 10 then 0x30 + d else 0x61 + (d - 10))"

definition u_escape :: "nat \<Rightarrow> pystr" where
  "u_escape n =
     [0x5C, 0x75, hex_digit (n div 4096 mod 16), hex_digit (n div 256 mod 16),
      hex_digit (n div 16 mod 16), hex_digit (n mod 16)]"

definition json_char :: "nat \<Rightarrow> pystr" where
  "json_char c =
     (if c = 0x5C then [0x5C, 0x5C]
      else if c = 0x22 then [0x5C, 0x22]
      else if c = 0x08 then [0x5C, 0x62]
      else if c = 0x0C then [0x5C, 0x66]
      else if c = 0x0A then [0x5C, 0x6E]
      else if c = 0x0D then [0x5C, 0x72]
      else if c = 0x09 then [0x5C, 0x74]
      else if 0x20 \<le> c \<and> c \<le> 0x7E then [c]
      else if c < 0x10000 then u_escape c
      else u_escape (0xD800 + (c - 0x10000) div 1024 mod 1024)
             @ u_escape (0xDC00 + (c - 0x10000) mod 1024))"

definition json_string :: "pystr \<Rightarrow> pystr" where
  "json_string s = [0x22] @ concat (map json_char s) @ [0x22]"

definition json_dumps :: "pystr list \<Rightarrow> pystr" where
  "json_dumps xs = [0x5B] @ join (ascii '', '') (map json_string xs) @ [0x5D]"

subsection \<open>The record built by \<open>clean_html\<close>\<close>

text \<open>The dictionary \<open>data\<close> has fifteen fixed keys: a record. A value that may be
  \<open>None\<close> is an option. \<open>Img_urls\<close> is a list or its JSON text, the two cases that
  \<open>save_to_db\<close> tells apart.\<close>

datatype img_value = ImgList "pystr list" | ImgText pystr

record listing =
  URL :: pystr
  Title :: "pystr option"
  Price :: "int option"
  Published_time :: "pystr option"
  Published_Date :: "pystr option"
  Seller_name :: "pystr option"
  Condition :: "pystr option"
  Model :: "pystr option"
  Brand :: "pystr option"
  Features :: "pystr option"
  Description :: "pystr option"
  Location :: "pystr option"
  Division :: "pystr option"
  Img_urls :: img_value
  Date :: pystr

text \<open>The price, lines 246 to 252: the body of the \<open>try\<close>, where \<open>get_text\<close> on a missing
  tag raises \<open>AttributeError\<close> and \<open>int\<close> may raise \<open>ValueError\<close>, and the \<open>except\<close>
  that turns any exception into \<open>None\<close>. \<open>re.sub(r"[...]", "", s)\<close> drops the taka sign
  U+09F3, the commas and the white space.\<close>

definition price_sub :: "pystr \<Rightarrow> pystr" where
  "price_sub s = filter (\<lambda>c. \<not> (c = 0x9F3 \<or> c = 0x2C \<or> isspace c)) s"

definition price_try :: "soup \<Rightarrow> error + int" where
  "price_try soup =
     (case find_tag (\<lambda>t. name t = ascii ''div'' \<and> class_matches (Anchored (ascii ''amount'')) t) soup of
        None \<Rightarrow> Inl AttributeError
      | Some price_tag \<Rightarrow>
          (let price_text = get_text [] price_tag
           in py_int (translate BANGLA_TO_ENGLISH (price_sub price_text))))"

definition extract_price :: "soup \<Rightarrow> int option" where
  "extract_price soup = (case price_try soup of Inl e \<Rightarrow> None | Inr price \<Rightarrow> Some price)"

text \<open>Lines 241 to 307 of \<open>clean_html\<close>: from the parsed page to the dictionary \<open>data\<close>. An
  exception here is not caught by \<open>clean_html\<close>.\<close>

definition build_data :: "env \<Rightarrow> pystr \<Rightarrow> soup \<Rightarrow> error + listing" where
  "build_data e url soup =
     (let title_tag = find_tag (\<lambda>t. name t = ascii ''h1'' \<and> class_matches (Anchored (ascii ''title--'')) t) soup;
          title = (case title_tag of None \<Rightarrow> None | Some t \<Rightarrow> Some (get_text [] t));
          price = extract_price soup;
          (published_time, published_date) = parse_date_time e soup url;
          subtitle_wrapper =
            find_tag (\<lambda>t. name t = ascii ''div'' \<and> class_matches (Anywhere (ascii ''subtitle-wrapper'')) t) soup;
          locations =
            (case subtitle_wrapper of
               None \<Rightarrow> []
             | Some w \<Rightarrow>
                 map (get_text [])
                   (find_all (\<lambda>t. name t = ascii ''a'' \<and>
                        class_matches (Anywhere (ascii ''subtitle-location-link'')) t) (contents w)));
          fields = extract_fields soup;
          feature_tag = find_tag (\<lambda>t. name t = ascii ''div'' \<and> class_matches (Anchored (ascii ''features'')) t) soup;
          features =
            (case feature_tag of
               None \<Rightarrow> None
             | Some ft \<Rightarrow>
                 (case find_tag (\<lambda>t. name t = ascii ''p'') (contents ft) of
                    None \<Rightarrow> None
                  | Some p_tag \<Rightarrow> Some (get_text [] p_tag)));
          desc_div = find_tag (\<lambda>t. name t = ascii ''div'' \<and> class_matches (Anchored (ascii ''description'')) t) soup;
          paragraphs =
            (case desc_div of None \<Rightarrow> [] | Some d \<Rightarrow> find_all (\<lambda>t. name t = ascii ''p'') (contents d));
          description = join [0x0A] (filter (\<lambda>s. s \<noteq> []) (map (get_text []) paragraphs));
          seller_div = find_tag (\<lambda>t. name t = ascii ''div'' \<and> class_matches (Anywhere (ascii ''contact-name'')) t) soup;
          seller_name = (case seller_div of None \<Rightarrow> None | Some t \<Rightarrow> Some (get_text [] t));
          current_date = strftime_date (now e)
      in case extract_images soup of
           Inl err \<Rightarrow> Inl err
         | Inr img_urls \<Rightarrow>
        (case getitem fields (ascii ''Condition'') of
           Inl err \<Rightarrow> Inl err
         | Inr condition \<Rightarrow>
        (case getitem fields (ascii ''Model'') of
           Inl err \<Rightarrow> Inl err
         | Inr model \<Rightarrow>
        (case getitem fields (ascii ''Brand'') of
           Inl err \<Rightarrow> Inl err
         | Inr brand \<Rightarrow>
             Inr \<lparr>URL = url, Title = title, Price = price,
                  Published_time = published_time, Published_Date = published_date,
                  Seller_name = seller_name,
                  Condition = condition, Model = model, Brand = brand,
                  Features = features, Description = Some description,
                  Location = (if length locations > 0 then Some (locations ! 0) else None),
                  Division = (if length locations > 1 then Some (locations ! 1) else None),
                  Img_urls = ImgText (json_dumps img_urls),
                  Date = current_date\<rparr>))))"

section \<open>Persistence (dbmanage.py)\<close>

text \<open>
  The table \<open>mobiles\<close> has \<open>URL\<close> as its primary key: a finite map from URL to row.
  \<open>init_db\<close> creates the table if it is missing and changes no row.

  \<open>save_to_db\<close>: \<open>json\<close> is not imported in dbmanage.py, so a list as \<open>Img_urls\<close> raises
  \<open>NameError\<close>; an integer outside 64 bits cannot be bound to the statement
  (\<open>OverflowError\<close>); otherwise \<open>INSERT OR IGNORE\<close> adds the row unless its key is there.
  An exception leaves the table as it was.
\<close>

type_synonym store = "pystr \<rightharpoonup> listing"

definition init_db :: "store \<Rightarrow> store" where
  "init_db d = d"

definition sqlite_integer :: "int option \<Rightarrow> bool" where
  "sqlite_integer v = (case v of None \<Rightarrow> True | Some i \<Rightarrow> - (2 ^ 63) \<le> i \<and> i < 2 ^ 63)"

definition save_to_db :: "store \<Rightarrow> listing \<Rightarrow> error + store" where
  "save_to_db d data =
     (case Img_urls data of
        ImgList xs \<Rightarrow> Inl NameError
      | ImgText j \<Rightarrow>
          if \<not> sqlite_integer (Price data) then Inl OverflowError
          else (case d (URL data) of
                  Some row \<Rightarrow> Inr d
                | None \<Rightarrow> Inr (d(URL data \<mapsto> data))))"

definition get_existing_urls :: "store \<Rightarrow> pystr set" where
  "get_existing_urls d = dom d"

definition filter_new_urls :: "store \<Rightarrow> pystr list \<Rightarrow> pystr list" where
  "filter_new_urls d all_urls =
     (let existing_urls = get_existing_urls d
      in filter (\<lambda>url. url \<notin> existing_urls) all_urls)"

section \<open>Fetching (scraper.py)\<close>

text \<open>
  The state of a run: the table, the GET requests sent so far, oldest first, and the
  contents of the report of failed URLs (\<open>None\<close> while the run has not written it).
  Logging and the sleep before a retry change nothing of it.

  The tasks given to \<open>asyncio.gather\<close> are run one after the other in the order of the
  list, which is one of the schedules that the semaphore allows.
\<close>

record state =
  db :: store
  requests :: "pystr list"
  report :: "pystr option"

subsection \<open>The link collector\<close>

fun page_links_loop :: "tag list \<Rightarrow> pystr list \<Rightarrow> error + pystr list" where
  "page_links_loop [] new_links = Inr new_links"
| "page_links_loop (item # rest) new_links =
     (case find_tag (\<lambda>t. name t = ascii ''a'' \<and> has_attr (ascii ''href'') t) (contents item) of
        None \<Rightarrow> page_links_loop rest new_links
      | Some link_tag \<Rightarrow>
          (case getitem (map_of (attrs link_tag)) (ascii ''href'') of
             Inl e \<Rightarrow> Inl e
           | Inr href \<Rightarrow>
               (let full_link = (if startswith href (ascii ''/'') then BASE_URL @ href else href)
                in page_links_loop rest (new_links @ [full_link]))))"

definition page_links :: "soup \<Rightarrow> error + pystr list" where
  "page_links soup =
     (case find_tag (\<lambda>t. name t = ascii ''ul'' \<and>
                         map_of (attrs t) (ascii ''data-testid'') = Some (ascii ''list'')) soup of
        None \<Rightarrow> Inr []
      | Some ul \<Rightarrow> page_links_loop (find_all (\<lambda>t. name t = ascii ''li'') (contents ul)) [])"

text \<open>\<open>scrape_page\<close> returns the empty list for a status other than 200 and for every
  exception.\<close>

definition scrape_page :: "env \<Rightarrow> nat \<Rightarrow> state \<Rightarrow> pystr list \<times> state" where
  "scrape_page e page_number s =
     (let url = BASE_PAGE_URL @ str_of_nat page_number;
          s1 = s\<lparr>requests := requests s @ [url]\<rparr>
      in case net e url (count_list (requests s) url) of
           Response status soup \<Rightarrow>
             if status \<noteq> 200 then ([], s1)
             else (case page_links soup of
                     Inl err \<Rightarrow> ([], s1)
                   | Inr new_links \<Rightarrow> (new_links, s1))
         | Timeout \<Rightarrow> ([], s1)
         | Failure \<Rightarrow> ([], s1))"

fun scrape_pages :: "env \<Rightarrow> nat list \<Rightarrow> state \<Rightarrow> pystr list list \<times> state" where
  "scrape_pages e [] s = ([], s)"
| "scrape_pages e (page # pages) s =
     (let (result, s1) = scrape_page e page s;
          (results, s2) = scrape_pages e pages s1
      in (result # results, s2))"

definition scraping_mobile_links :: "env \<Rightarrow> state \<Rightarrow> pystr list \<times> state" where
  "scraping_mobile_links e s =
     (let (results, s') = scrape_pages e [1..<MAX_PAGES + 1] s;
          all_links = fold (\<lambda>result all_links. all_links @ result) results []
      in (all_links, s'))"

subsection \<open>The detail fetcher\<close>

text \<open>\<open>clean_html\<close> returns \<open>True\<close> or \<open>None\<close>: \<open>Some True\<close> or \<open>None\<close>. The left summand
  is an exception that leaves \<open>clean_html\<close>.\<close>

function clean_html :: "env \<Rightarrow> pystr \<Rightarrow> nat \<Rightarrow> state \<Rightarrow> (error + bool option) \<times> state" where
  "clean_html e url retry_count s =
     (let s1 = s\<lparr>requests := requests s @ [url]\<rparr>
      in case net e url (count_list (requests s) url) of
           Response status soup \<Rightarrow>
             if status \<noteq> 200 then (Inr None, s1)
             else (case build_data e url soup of
                     Inl err \<Rightarrow> (Inl err, s1)
                   | Inr data \<Rightarrow>
                       (case save_to_db (db s1) data of
                          Inl err \<Rightarrow> (Inr None, s1)
                        | Inr d \<Rightarrow> (Inr (Some True), s1\<lparr>db := d\<rparr>)))
         | Timeout \<Rightarrow>
             if retry_count < MAX_RETRIES then clean_html e url (retry_count + 1) s1
             else (Inr None, s1)
         | Failure \<Rightarrow>
             if retry_count < MAX_RETRIES then clean_html e url (retry_count + 1) s1
             else (Inr None, s1))"
  by pat_completeness auto
termination
  by (relation "measure (\<lambda>(e, url, retry_count, s). MAX_RETRIES - retry_count)") auto

text \<open>The tasks \<open>safe_clean(link)\<close> of \<open>scrape_mobile_inf\<close>, with the list \<open>failed_urls\<close> that
  they share, and \<open>scrape_mobile_inf\<close>, which returns nothing in the source and here
  returns \<open>failed_urls\<close>.\<close>

fun safe_clean_all ::
  "env \<Rightarrow> pystr list \<Rightarrow> pystr list \<Rightarrow> state \<Rightarrow> (error + pystr list) \<times> state" where
  "safe_clean_all e [] failed_urls s = (Inr failed_urls, s)"
| "safe_clean_all e (link # rest) failed_urls s =
     (case clean_html e link 0 s of
        (Inl err, s') \<Rightarrow> (Inl err, s')
      | (Inr result, s') \<Rightarrow>
          safe_clean_all e rest (if result = None then failed_urls @ [link] else failed_urls) s')"

definition scrape_mobile_inf :: "env \<Rightarrow> pystr list \<Rightarrow> state \<Rightarrow> (error + pystr list) \<times> state" where
  "scrape_mobile_inf e urls s =
     (case safe_clean_all e urls [] s of
        (Inl err, s') \<Rightarrow> (Inl err, s')
      | (Inr failed_urls, s') \<Rightarrow>
          (Inr failed_urls,
           if failed_urls \<noteq> [] \<and> report_writable e
           then s'\<lparr>report := Some (join [0x0A] failed_urls)\<rparr> else s'))"

subsection \<open>\<open>main\<close>\<close>

definition main :: "env \<Rightarrow> state \<Rightarrow> (error + pystr list) \<times> state" where
  "main e s =
     (let s0 = s\<lparr>db := init_db (db s)\<rparr>;
          (phone_urls, s1) = scraping_mobile_links e s0;
          new_urls = filter_new_urls (db s1) phone_urls
      in if new_urls \<noteq> [] then scrape_mobile_inf e new_urls s1 else (Inr [], s1))"

section \<open>Notions of the specification and example inputs\<close>

text \<open>The table after a call of \<open>save_to_db\<close>, whether it returned or raised.\<close>

definition table_after :: "store \<Rightarrow> error + store \<Rightarrow> store" where
  "table_after d r = (case r of Inl err \<Rightarrow> d | Inr d' \<Rightarrow> d')"

text \<open>The \<open>src\<close> values of the image elements of a document, in document order.\<close>

definition image_sources :: "soup \<Rightarrow> pystr list" where
  "image_sources soup =
     List.map_filter (\<lambda>t. if name t = ascii ''img'' then map_of (attrs t) (ascii ''src'') else None)
       (map fst (located soup))"

text \<open>The containers of a document, and for a field name the sibling texts of the
  containers whose exact text is a label of that field and that have a following sibling
  container, in document order. The value of the field is the last of them.\<close>

definition all_divs :: "soup \<Rightarrow> (tag \<times> node list) list" where
  "all_divs soup = filter (\<lambda>(t, siblings). name t = ascii ''div'') (located soup)"

definition label_values :: "pystr \<Rightarrow> (tag \<times> node list) list \<Rightarrow> pystr list" where
  "label_values key divs =
     List.map_filter
       (\<lambda>(t, siblings).
          if map_of FIELD_MAP (get_text [] t) = Some key
          then map_option (get_text []) (find_next_sibling (ascii ''div'') siblings)
          else None) divs"

definition field_value :: "pystr \<Rightarrow> soup \<Rightarrow> pystr option" where
  "field_value key soup =
     (if label_values key (all_divs soup) = [] then None
      else Some (last (label_values key (all_divs soup))))"

definition example_row :: listing where
  "example_row =
     \<lparr>URL = ascii ''https://bikroy.com/ad/a'', Title = Some (ascii ''first''), Price = Some 1200,
      Published_time = None, Published_Date = None, Seller_name = None, Condition = None,
      Model = None, Brand = None, Features = None, Description = Some [], Location = None,
      Division = None, Img_urls = ImgText (ascii ''[]''), Date = ascii ''2025-01-01''\<rparr>"

section \<open>Digit normalisation\<close>

lemma BANGLA_TO_ENGLISH_digit:
  "0x9E6 \<le> c \<Longrightarrow> c \<le> 0x9EF \<Longrightarrow> BANGLA_TO_ENGLISH c = Some (c - 0x9E6 + 0x30)"
proof -
  assume "0x9E6 \<le> c" and "c \<le> 0x9EF"
  then have "c \<in> {0x9E6, 0x9E7, 0x9E8, 0x9E9, 0x9EA, 0x9EB, 0x9EC, 0x9ED, 0x9EE, 0x9EF}"
    by (simp only: insert_iff empty_iff) arith
  then show ?thesis
    by (auto simp: BANGLA_TO_ENGLISH_def maketrans_def bangla_digits_def ascii_digits_def ascii_def)
qed

lemma BANGLA_TO_ENGLISH_other:
  "\<not> (0x9E6 \<le> c \<and> c \<le> 0x9EF) \<Longrightarrow> BANGLA_TO_ENGLISH c = None"
  by (auto simp: BANGLA_TO_ENGLISH_def maketrans_def bangla_digits_def ascii_digits_def ascii_def)

text \<open>
  Claim C8. Digit normalisation \<open>s.translate(BANGLA_TO_ENGLISH)\<close> is a total function
  (the model has no failing branch: every table value is a code point), its output has
  the length of its input, every Bangla digit U+09E6+d becomes the ASCII digit U+0030+d,
  and every other code point is left as it is.
\<close>

theorem translate_BANGLA_TO_ENGLISH_pointwise:
  "length (translate BANGLA_TO_ENGLISH s) = length s \<and>
   (\<forall>i < length s.
      (0x9E6 \<le> s ! i \<and> s ! i \<le> 0x9EF \<longrightarrow>
         translate BANGLA_TO_ENGLISH s ! i = s ! i - 0x9E6 + 0x30) \<and>
      (\<not> (0x9E6 \<le> s ! i \<and> s ! i \<le> 0x9EF) \<longrightarrow>
         translate BANGLA_TO_ENGLISH s ! i = s ! i))"
proof (intro conjI allI impI)
  show "length (translate BANGLA_TO_ENGLISH s) = length s"
    by (simp add: translate_def)
next
  fix i assume "i < length s" and "0x9E6 \<le> s ! i \<and> s ! i \<le> 0x9EF"
  then show "translate BANGLA_TO_ENGLISH s ! i = s ! i - 0x9E6 + 0x30"
    by (simp add: translate_def BANGLA_TO_ENGLISH_digit)
next
  fix i assume "i < length s" and "\<not> (0x9E6 \<le> s ! i \<and> s ! i \<le> 0x9EF)"
  then show "translate BANGLA_TO_ENGLISH s ! i = s ! i"
    by (simp add: translate_def BANGLA_TO_ENGLISH_other)
qed

theorem translate_BANGLA_TO_ENGLISH_witness:
  "translate BANGLA_TO_ENGLISH [0x9F3, 0x20, 0x9E7, 0x2C, 0x9E8, 0x9E6, 0x9E6]
     = [0x9F3, 0x20, 0x31, 0x2C, 0x32, 0x30, 0x30]"
proof -
  let ?s = "[0x9F3, 0x20, 0x9E7, 0x2C, 0x9E8, 0x9E6, 0x9E6] :: pystr"
  have len: "length (translate BANGLA_TO_ENGLISH ?s) = length ?s"
    and pt: "\<forall>i < length ?s.
      (0x9E6 \<le> ?s ! i \<and> ?s ! i \<le> 0x9EF \<longrightarrow>
         translate BANGLA_TO_ENGLISH ?s ! i = ?s ! i - 0x9E6 + 0x30) \<and>
      (\<not> (0x9E6 \<le> ?s ! i \<and> ?s ! i \<le> 0x9EF) \<longrightarrow>
         translate BANGLA_TO_ENGLISH ?s ! i = ?s ! i)"
    using translate_BANGLA_TO_ENGLISH_pointwise [of ?s] by blast+
  have "\<forall>i < 7. translate BANGLA_TO_ENGLISH ?s ! i
      = [0x9F3, 0x20, 0x31, 0x2C, 0x32, 0x30, 0x30] ! i"
  proof (intro allI impI)
    fix i :: nat assume "i < 7"
    then have "i \<in> {0, 1, 2, 3, 4, 5, 6}" by auto
    with pt show "translate BANGLA_TO_ENGLISH ?s ! i
      = [0x9F3, 0x20, 0x31, 0x2C, 0x32, 0x30, 0x30] ! i"
      by auto
  qed
  with len show ?thesis
    by (intro nth_equalityI) simp_all
qed

section \<open>Persistence\<close>

lemma save_to_db_cases:
  "save_to_db d data = Inl NameError \<or> save_to_db d data = Inl OverflowError \<or>
   save_to_db d data = Inr (if d (URL data) = None then d(URL data \<mapsto> data) else d)"
  by (cases "Img_urls data"; cases "d (URL data)"; simp add: save_to_db_def)

lemma save_to_db_existing:
  "d (URL data) = Some row \<Longrightarrow> table_after d (save_to_db d data) = d"
  using save_to_db_cases [of d data] by (auto simp: table_after_def)

lemma save_to_db_fresh:
  "d (URL a) = None \<Longrightarrow> save_to_db d a = Inr d1 \<Longrightarrow> d1 = d(URL a \<mapsto> a)"
  using save_to_db_cases [of d a] by auto

text \<open>
  Claim C3. \<open>save_to_db\<close> is first-write-wins: when the table has a row for the URL of
  the record, the call leaves the whole table as it was, whatever the payload and whether
  the call returns or raises; so after a first write that stored \<open>a\<close> under a fresh URL, a
  second write of any record \<open>b\<close> with that URL leaves \<open>a\<close> stored.
\<close>

theorem save_to_db_first_write_wins:
  "(d (URL data) = Some row \<longrightarrow> table_after d (save_to_db d data) = d) \<and>
   (d0 (URL a) = None \<and> save_to_db d0 a = Inr d1 \<and> URL b = URL a \<longrightarrow>
      d1 (URL a) = Some a \<and> table_after d1 (save_to_db d1 b) (URL a) = Some a)"
proof (intro conjI impI)
  assume "d (URL data) = Some row"
  then show "table_after d (save_to_db d data) = d" by (rule save_to_db_existing)
next
  assume h: "d0 (URL a) = None \<and> save_to_db d0 a = Inr d1 \<and> URL b = URL a"
  then have d1: "d1 = d0(URL a \<mapsto> a)" using save_to_db_fresh by blast
  then show "d1 (URL a) = Some a" by simp
  have "d1 (URL b) = Some a" using d1 h by simp
  then have "table_after d1 (save_to_db d1 b) = d1" by (rule save_to_db_existing)
  then show "table_after d1 (save_to_db d1 b) (URL a) = Some a" using d1 by simp
qed

lemma save_example_row:
  "save_to_db Map.empty example_row = Inr [URL example_row \<mapsto> example_row]"
  by (simp add: save_to_db_def example_row_def sqlite_integer_def)

lemma example_row_retitled:
  "example_row\<lparr>Title := Some (ascii ''second'')\<rparr> \<noteq> example_row"
proof
  assume "example_row\<lparr>Title := Some (ascii ''second'')\<rparr> = example_row"
  then have "Title (example_row\<lparr>Title := Some (ascii ''second'')\<rparr>) = Title example_row"
    by (rule arg_cong)
  then show False by (simp add: example_row_def ascii_def)
qed

theorem save_to_db_first_write_wins_witness:
  "[URL example_row \<mapsto> example_row] (URL (example_row\<lparr>Title := Some (ascii ''second'')\<rparr>))
     = Some example_row \<and>
   Map.empty (URL example_row) = None \<and>
   save_to_db Map.empty example_row = Inr [URL example_row \<mapsto> example_row] \<and>
   URL (example_row\<lparr>Title := Some (ascii ''second'')\<rparr>) = URL example_row \<and>
   example_row\<lparr>Title := Some (ascii ''second'')\<rparr> \<noteq> example_row \<and>
   table_after [URL example_row \<mapsto> example_row]
     (save_to_db [URL example_row \<mapsto> example_row] (example_row\<lparr>Title := Some (ascii ''second'')\<rparr>))
     = [URL example_row \<mapsto> example_row] \<and>
   table_after [URL example_row \<mapsto> example_row]
     (save_to_db [URL example_row \<mapsto> example_row] (example_row\<lparr>Title := Some (ascii ''second'')\<rparr>))
     (URL example_row) = Some example_row"
  using save_to_db_first_write_wins
          [of "[URL example_row \<mapsto> example_row]" "example_row\<lparr>Title := Some (ascii ''second'')\<rparr>"
              example_row Map.empty example_row "[URL example_row \<mapsto> example_row]"
              "example_row\<lparr>Title := Some (ascii ''second'')\<rparr>"]
        save_example_row example_row_retitled
  by simp

lemma count_list_filter:
  "count_list (filter P xs) u = (if P u then count_list xs u else 0)"
  by (induction xs) auto

text \<open>
  Claim C4. \<open>filter_new_urls\<close> returns exactly the elements of its input that are not
  keys of the table, in the order of the input: the result is a subsequence of the input,
  it is contained in the input, it has no element in common with the known URLs, and every
  URL that is not known occurs in it as often as in the input.
\<close>

theorem filter_new_urls_set_difference:
  "filter_new_urls d urls = filter (\<lambda>u. d u = None) urls \<and>
   subseq (filter_new_urls d urls) urls \<and>
   set (filter_new_urls d urls) \<subseteq> set urls \<and>
   set (filter_new_urls d urls) \<inter> get_existing_urls d = {} \<and>
   (\<forall>u. u \<notin> get_existing_urls d \<longrightarrow>
      count_list (filter_new_urls d urls) u = count_list urls u)"
proof -
  have eq: "filter_new_urls d urls = filter (\<lambda>u. d u = None) urls"
    by (simp add: filter_new_urls_def get_existing_urls_def dom_def)
  show ?thesis unfolding eq
    by (auto simp: get_existing_urls_def count_list_filter)
qed

theorem filter_new_urls_set_difference_witness:
  "ascii ''b'' \<notin> get_existing_urls [ascii ''a'' \<mapsto> example_row] \<and>
   filter_new_urls [ascii ''a'' \<mapsto> example_row] [ascii ''b'', ascii ''a'', ascii ''b''] = [ascii ''b'', ascii ''b''] \<and>
   count_list (filter_new_urls [ascii ''a'' \<mapsto> example_row] [ascii ''b'', ascii ''a'', ascii ''b'']) (ascii ''b'') = 2"
  using filter_new_urls_set_difference [of "[ascii ''a'' \<mapsto> example_row]" "[ascii ''b'', ascii ''a'', ascii ''b'']"]
  by (simp add: get_existing_urls_def ascii_def)

section \<open>Field extraction\<close>

lemma startswith_contains: "startswith s p \<Longrightarrow> contains s p"
  by (cases s) (auto simp: startswith_def)

lemma extract_images_loop_eq:
  "\<forall>t \<in> set imgs. has_attr (ascii ''src'') t \<Longrightarrow>
   extract_images_loop imgs acc =
     Inr (acc @ filter (\<lambda>s. \<not> contains s AVATAR_PATTERN)
                  (List.map_filter (\<lambda>t. map_of (attrs t) (ascii ''src'')) imgs))"
proof (induction imgs arbitrary: acc)
  case Nil
  then show ?case by simp
next
  case (Cons t imgs)
  then obtain s where s: "map_of (attrs t) (ascii ''src'') = Some s"
    by (auto simp: has_attr_def)
  with Cons show ?case
    by (simp add: getitem_def)
qed

lemma map_filter_filter:
  "List.map_filter f (filter P xs) = List.map_filter (\<lambda>x. if P x then f x else None) xs"
  by (induction xs) (auto split: option.splits)

lemma map_filter_cong_set:
  "(\<And>x. x \<in> set xs \<Longrightarrow> f x = g x) \<Longrightarrow> List.map_filter f xs = List.map_filter g xs"
  by (induction xs) (auto split: option.splits)

lemma extract_images_eq:
  "extract_images soup = Inr (filter (\<lambda>s. \<not> contains s AVATAR_PATTERN) (image_sources soup))"
proof -
  let ?P = "\<lambda>t. name t = ascii ''img'' \<and> has_attr (ascii ''src'') t"
  have all: "\<forall>t \<in> set (find_all ?P soup). has_attr (ascii ''src'') t"
    by (simp add: find_all_def)
  have "List.map_filter (\<lambda>t. map_of (attrs t) (ascii ''src'')) (find_all ?P soup) = image_sources soup"
    unfolding find_all_def image_sources_def map_filter_filter
    by (rule map_filter_cong_set) (auto simp: has_attr_def)
  with extract_images_loop_eq [OF all, of "[]"] show ?thesis
    by (simp add: extract_images_def)
qed

lemma extract_fields_loop_key:
  "extract_fields_loop divs result key =
     (if label_values key divs = [] then result key
      else Some (Some (last (label_values key divs))))"
proof (induction divs arbitrary: result)
  case Nil
  then show ?case by (simp add: label_values_def)
next
  case (Cons a divs)
  obtain t sibs where a: "a = (t, sibs)" by (cases a)
  show ?case
  proof (cases "map_of FIELD_MAP (get_text [] t)")
    case None
    then show ?thesis using Cons a by (simp add: label_values_def)
  next
    case (Some k)
    show ?thesis
    proof (cases "find_next_sibling (ascii ''div'') sibs")
      case None
      then show ?thesis using Cons a Some by (simp add: label_values_def)
    next
      case (Some nd)
      then show ?thesis using Cons a \<open>map_of FIELD_MAP (get_text [] t) = Some k\<close>
        by (simp add: label_values_def)
    qed
  qed
qed

lemma extract_fields_loop_dom:
  "dom (extract_fields_loop divs result) \<subseteq> dom result \<union> snd ` set FIELD_MAP"
proof (induction divs arbitrary: result)
  case Nil
  then show ?case by simp
next
  case (Cons a divs)
  obtain t sibs where a: "a = (t, sibs)" by (cases a)
  show ?case
  proof (cases "map_of FIELD_MAP (get_text [] t)")
    case None
    then show ?thesis using Cons a by simp
  next
    case (Some k)
    then have k: "k \<in> snd ` set FIELD_MAP" by (metis map_of_SomeD snd_conv image_eqI)
    show ?thesis
    proof (cases "find_next_sibling (ascii ''div'') sibs")
      case None
      then show ?thesis using Cons a Some by simp
    next
      case (Some nd)
      have "dom (extract_fields_loop divs (result(k \<mapsto> Some (get_text [] nd))))
              \<subseteq> dom (result(k \<mapsto> Some (get_text [] nd))) \<union> snd ` set FIELD_MAP"
        by (rule Cons.IH)
      then show ?thesis using a Some \<open>map_of FIELD_MAP (get_text [] t) = Some k\<close> k
        by auto
    qed
  qed
qed

lemma extract_fields_loop_mono:
  "dom result \<subseteq> dom (extract_fields_loop divs result)"
proof (induction divs arbitrary: result)
  case Nil
  then show ?case by simp
next
  case (Cons a divs)
  obtain t sibs where a: "a = (t, sibs)" by (cases a)
  show ?case
  proof (cases "map_of FIELD_MAP (get_text [] t)")
    case None
    then show ?thesis using Cons a by simp
  next
    case (Some k)
    show ?thesis
    proof (cases "find_next_sibling (ascii ''div'') sibs")
      case None
      then show ?thesis using Cons a Some by simp
    next
      case (Some nd)
      have "dom (result(k \<mapsto> Some (get_text [] nd)))
              \<subseteq> dom (extract_fields_loop divs (result(k \<mapsto> Some (get_text [] nd))))"
        by (rule Cons.IH)
      then show ?thesis using a Some \<open>map_of FIELD_MAP (get_text [] t) = Some k\<close>
        by auto
    qed
  qed
qed

lemma field_names: "snd ` set FIELD_MAP = {ascii ''Condition'', ascii ''Model'', ascii ''Brand''}"
  by (simp add: FIELD_MAP_def)

lemma initial_result_dom:
  "dom (map_of (map (\<lambda>v. (v, None :: pystr option)) (map snd FIELD_MAP)))
     = {ascii ''Condition'', ascii ''Model'', ascii ''Brand''}"
  by (simp add: dom_map_of_conv_image_fst image_image field_names [symmetric] del: set_map) (simp add: image_image)

lemma extract_fields_dom:
  "dom (extract_fields soup) = {ascii ''Condition'', ascii ''Model'', ascii ''Brand''}"
proof
  show "dom (extract_fields soup) \<subseteq> {ascii ''Condition'', ascii ''Model'', ascii ''Brand''}"
    using extract_fields_loop_dom [of "all_divs soup" "map_of (map (\<lambda>v. (v, None)) (map snd FIELD_MAP))"]
    unfolding extract_fields_def Let_def all_divs_def initial_result_dom field_names by simp
  show "{ascii ''Condition'', ascii ''Model'', ascii ''Brand''} \<subseteq> dom (extract_fields soup)"
    using extract_fields_loop_mono [of "map_of (map (\<lambda>v. (v, None)) (map snd FIELD_MAP))" "all_divs soup"]
    unfolding extract_fields_def Let_def all_divs_def initial_result_dom by simp
qed

lemma extract_fields_key:
  "key \<in> {ascii ''Condition'', ascii ''Model'', ascii ''Brand''} \<Longrightarrow>
   extract_fields soup key = Some (field_value key soup)"
proof -
  assume k: "key \<in> {ascii ''Condition'', ascii ''Model'', ascii ''Brand''}"
  let ?init = "map_of (map (\<lambda>v. (v, None :: pystr option)) (map snd FIELD_MAP))"
  have "key \<in> dom ?init" using k initial_result_dom by simp
  then obtain v where v: "?init key = Some v" by auto
  then have "(key, v) \<in> set (map (\<lambda>v. (v, None)) (map snd FIELD_MAP))" by (rule map_of_SomeD)
  then have "v = None" by auto
  with v have init: "?init key = Some None" by simp
  show ?thesis
    unfolding extract_fields_def Let_def field_value_def all_divs_def [symmetric]
    using init by (simp add: extract_fields_loop_key)
qed

lemma getitem_fields:
  "key \<in> {ascii ''Condition'', ascii ''Model'', ascii ''Brand''} \<Longrightarrow>
   getitem (extract_fields soup) key = Inr (field_value key soup)"
  by (simp add: getitem_def extract_fields_key)

lemma build_data_eq:
  "build_data e url soup =
     Inr \<lparr>URL = url,
          Title = map_option (get_text [])
                    (find_tag (\<lambda>t. name t = ascii ''h1'' \<and> class_matches (Anchored (ascii ''title--'')) t) soup),
          Price = extract_price soup,
          Published_time = fst (parse_date_time e soup url),
          Published_Date = snd (parse_date_time e soup url),
          Seller_name = map_option (get_text [])
                    (find_tag (\<lambda>t. name t = ascii ''div'' \<and> class_matches (Anywhere (ascii ''contact-name'')) t) soup),
          Condition = field_value (ascii ''Condition'') soup,
          Model = field_value (ascii ''Model'') soup,
          Brand = field_value (ascii ''Brand'') soup,
          Features =
            (case find_tag (\<lambda>t. name t = ascii ''div'' \<and> class_matches (Anchored (ascii ''features'')) t) soup of
               None \<Rightarrow> None
             | Some ft \<Rightarrow> map_option (get_text []) (find_tag (\<lambda>t. name t = ascii ''p'') (contents ft))),
          Description = Some (join [0x0A] (filter (\<lambda>s. s \<noteq> [])
            (map (get_text [])
               (case find_tag (\<lambda>t. name t = ascii ''div'' \<and> class_matches (Anchored (ascii ''description'')) t) soup of
                  None \<Rightarrow> []
                | Some d \<Rightarrow> find_all (\<lambda>t. name t = ascii ''p'') (contents d))))),
          Location = (case find_tag (\<lambda>t. name t = ascii ''div'' \<and> class_matches (Anywhere (ascii ''subtitle-wrapper'')) t) soup of
               None \<Rightarrow> None
             | Some w \<Rightarrow>
                 (case find_all (\<lambda>t. name t = ascii ''a'' \<and>
                        class_matches (Anywhere (ascii ''subtitle-location-link'')) t) (contents w) of
                    [] \<Rightarrow> None | l # ls \<Rightarrow> Some (get_text [] l))),
          Division = (case find_tag (\<lambda>t. name t = ascii ''div'' \<and> class_matches (Anywhere (ascii ''subtitle-wrapper'')) t) soup of
               None \<Rightarrow> None
             | Some w \<Rightarrow>
                 (case find_all (\<lambda>t. name t = ascii ''a'' \<and>
                        class_matches (Anywhere (ascii ''subtitle-location-link'')) t) (contents w) of
                    l # l' # ls \<Rightarrow> Some (get_text [] l') | _ \<Rightarrow> None)),
          Img_urls = ImgText (json_dumps (filter (\<lambda>s. \<not> contains s AVATAR_PATTERN) (image_sources soup))),
          Date = strftime_date (now e)\<rparr>"
  unfolding build_data_def Let_def
  by (simp add: extract_images_eq getitem_fields split_beta split: option.split list.split)

section \<open>The detail fetcher\<close>

declare clean_html.simps [simp del]

lemma clean_html_not_200:
  "net e url (count_list (requests s) url) = Response status page \<Longrightarrow> status \<noteq> 200 \<Longrightarrow>
   clean_html e url retry_count s = (Inr None, s\<lparr>requests := requests s @ [url]\<rparr>)"
  by (subst clean_html.simps) simp

lemma clean_html_timeouts:
  "(\<forall>k. net e url k = Timeout) \<Longrightarrow> retry_count \<le> MAX_RETRIES \<Longrightarrow>
   clean_html e url retry_count s =
     (Inr None, s\<lparr>requests := requests s @ replicate (Suc (MAX_RETRIES - retry_count)) url\<rparr>)"
proof (induction "MAX_RETRIES - retry_count" arbitrary: retry_count s)
  case 0
  then have "\<not> retry_count < MAX_RETRIES" by simp
  with 0 show ?case by (subst clean_html.simps) simp
next
  case (Suc n)
  then have lt: "retry_count < MAX_RETRIES" by simp
  have n: "n = MAX_RETRIES - (retry_count + 1)" using Suc.hyps(2) by simp
  have le: "retry_count + 1 \<le> MAX_RETRIES" using lt by simp
  have step: "clean_html e url retry_count s =
      clean_html e url (retry_count + 1) (s\<lparr>requests := requests s @ [url]\<rparr>)"
    using Suc.prems(1) lt by (subst clean_html.simps) simp
  have "Suc (MAX_RETRIES - retry_count) = Suc (Suc (MAX_RETRIES - (retry_count + 1)))"
    using lt by simp
  then show ?case
    unfolding step Suc.hyps(1) [OF n Suc.prems(1) le]
    by simp
qed

lemma clean_html_shape:
  "\<exists>result n d. clean_html e url retry_count s =
      (Inr result, s\<lparr>requests := requests s @ replicate (Suc n) url, db := d\<rparr>) \<and>
      (\<forall>k. k \<noteq> url \<longrightarrow> d k = db s k) \<and>
      ((\<forall>k. \<exists>status page. net e url k = Response status page) \<longrightarrow> n = 0)"
proof (induction e url retry_count s rule: clean_html.induct)
  case (1 e url retry_count s)
  let ?s1 = "s\<lparr>requests := requests s @ [url]\<rparr>"
  show ?case
  proof (cases "net e url (count_list (requests s) url)")
    case (Response status page)
    show ?thesis
    proof (cases "status = 200")
      case False
      have "clean_html e url retry_count s = (Inr None, ?s1\<lparr>db := db s\<rparr>)"
        using Response False by (subst clean_html.simps) simp
      then show ?thesis by (intro exI [of _ None] exI [of _ 0] exI [of _ "db s"]) simp
    next
      case True
      obtain data where data: "build_data e url page = Inr data" and u: "URL data = url"
        using build_data_eq [of e url page] by simp
      show ?thesis
      proof (cases "save_to_db (db s) data")
        case (Inl err)
        have "clean_html e url retry_count s = (Inr None, ?s1\<lparr>db := db s\<rparr>)"
          using Response True data Inl by (subst clean_html.simps) simp
        then show ?thesis by (intro exI [of _ None] exI [of _ 0] exI [of _ "db s"]) simp
      next
        case (Inr d)
        have "clean_html e url retry_count s = (Inr (Some True), ?s1\<lparr>db := d\<rparr>)"
          using Response True data Inr by (subst clean_html.simps) simp
        moreover have "\<forall>k. k \<noteq> url \<longrightarrow> d k = db s k"
          using save_to_db_cases [of "db s" data] Inr u by auto
        ultimately show ?thesis
          by (intro exI [of _ "Some True"] exI [of _ 0] exI [of _ d]) simp
      qed
    qed
  next
    case Timeout
    show ?thesis
    proof (cases "retry_count < MAX_RETRIES")
      case False
      have "clean_html e url retry_count s = (Inr None, ?s1\<lparr>db := db s\<rparr>)"
        using Timeout False by (subst clean_html.simps) simp
      moreover have "\<not> (\<forall>k. \<exists>status page. net e url k = Response status page)"
        using Timeout by (metis outcome.distinct(3))
      ultimately show ?thesis by (intro exI [of _ None] exI [of _ 0] exI [of _ "db s"]) simp
    next
      case True
      from "1.IH"(1) [OF refl Timeout True]
      obtain result n d where
        r: "clean_html e url (retry_count + 1) ?s1 =
             (Inr result, ?s1\<lparr>requests := requests ?s1 @ replicate (Suc n) url, db := d\<rparr>)"
        and d: "\<forall>k. k \<noteq> url \<longrightarrow> d k = db ?s1 k"
        by blast
      have "clean_html e url retry_count s = clean_html e url (retry_count + 1) ?s1"
        using Timeout True by (subst clean_html.simps) simp
      with r have "clean_html e url retry_count s =
          (Inr result, s\<lparr>requests := requests s @ replicate (Suc (Suc n)) url, db := d\<rparr>)"
        by simp
      moreover have "\<not> (\<forall>k. \<exists>status page. net e url k = Response status page)"
        using Timeout by (metis outcome.distinct(3))
      ultimately show ?thesis using d
        by (intro exI [of _ result] exI [of _ "Suc n"] exI [of _ d]) simp
    qed
  next
    case Failure
    show ?thesis
    proof (cases "retry_count < MAX_RETRIES")
      case False
      have "clean_html e url retry_count s = (Inr None, ?s1\<lparr>db := db s\<rparr>)"
        using Failure False by (subst clean_html.simps) simp
      moreover have "\<not> (\<forall>k. \<exists>status page. net e url k = Response status page)"
        using Failure by (metis outcome.distinct(5))
      ultimately show ?thesis by (intro exI [of _ None] exI [of _ 0] exI [of _ "db s"]) simp
    next
      case True
      from "1.IH"(2) [OF refl Failure True]
      obtain result n d where
        r: "clean_html e url (retry_count + 1) ?s1 =
             (Inr result, ?s1\<lparr>requests := requests ?s1 @ replicate (Suc n) url, db := d\<rparr>)"
        and d: "\<forall>k. k \<noteq> url \<longrightarrow> d k = db ?s1 k"
        by blast
      have "clean_html e url retry_count s = clean_html e url (retry_count + 1) ?s1"
        using Failure True by (subst clean_html.simps) simp
      with r have "clean_html e url retry_count s =
          (Inr result, s\<lparr>requests := requests s @ replicate (Suc (Suc n)) url, db := d\<rparr>)"
        by simp
      moreover have "\<not> (\<forall>k. \<exists>status page. net e url k = Response status page)"
        using Failure by (metis outcome.distinct(5))
      ultimately show ?thesis using d
        by (intro exI [of _ result] exI [of _ "Suc n"] exI [of _ d]) simp
    qed
  qed
qed

end
